theory Spec2Isabelle
  imports Complex_Main
begin

section \<open>POD-UQNN: the Bayesian regression core of \<open>podnn/custombnn.py\<close>\<close>

text \<open>
  The development embeds \<open>DenseVariational\<close> and \<open>BayesianNeuralNetwork\<close> of
  \<open>src/podnn/custombnn.py\<close>. Numbers are idealised: a finite float64 is a real number
  and arithmetic on finite values is exact (rounding and overflow are not modelled).
  On the NumPy side, where the code can divide by zero, a value is a real number or one
  of the three non-finite values of IEEE 754, with their rules. On the TensorFlow side
  tensors hold real numbers, and a computation that would leave the reals (a scale that
  is not positive, a non-finite input) ends in the outcome \<open>NonFinite\<close>.
\<close>

subsection \<open>Exceptions and outcomes\<close>

datatype error =
    FileNotFoundError string
  | ValueError
  | IndexError
  | InvalidArgumentError
  | UnpicklingError
  | LoadModelError

text \<open>What a call on the TensorFlow side ends in: a value, an exception, or arrays that
  hold \<open>inf\<close> or \<open>nan\<close> (the code raises nothing there and carries them on).\<close>

datatype 'a outcome = Returns 'a | Raises error | NonFinite

subsection \<open>NumPy float64 values\<close>

datatype f64 = Fin real | PInf | NInf | NaN

fun is_finite :: "f64 \<Rightarrow> bool" where
  "is_finite (Fin x) = True"
| "is_finite PInf = False"
| "is_finite NInf = False"
| "is_finite NaN = False"

fun f64_neg :: "f64 \<Rightarrow> f64" where
  "f64_neg (Fin x) = Fin (- x)"
| "f64_neg PInf = NInf"
| "f64_neg NInf = PInf"
| "f64_neg NaN = NaN"

fun f64_add :: "f64 \<Rightarrow> f64 \<Rightarrow> f64" where
  "f64_add (Fin a) (Fin b) = Fin (a + b)"
| "f64_add NaN y = NaN"
| "f64_add x NaN = NaN"
| "f64_add PInf NInf = NaN"
| "f64_add NInf PInf = NaN"
| "f64_add PInf y = PInf"
| "f64_add x PInf = PInf"
| "f64_add NInf y = NInf"
| "f64_add x NInf = NInf"

definition f64_sub :: "f64 \<Rightarrow> f64 \<Rightarrow> f64" where
  "f64_sub x y = f64_add x (f64_neg y)"

text \<open>The sign of a value that is not \<open>nan\<close>: \<open>-1\<close>, \<open>0\<close> or \<open>1\<close>.\<close>

fun f64_sign :: "f64 \<Rightarrow> real" where
  "f64_sign (Fin x) = sgn x"
| "f64_sign PInf = 1"
| "f64_sign NInf = - 1"
| "f64_sign NaN = 0"

definition signed_inf :: "real \<Rightarrow> f64" where
  "signed_inf s = (if s = 0 then NaN else if 0 < s then PInf else NInf)"

fun f64_mul :: "f64 \<Rightarrow> f64 \<Rightarrow> f64" where
  "f64_mul (Fin a) (Fin b) = Fin (a * b)"
| "f64_mul NaN y = NaN"
| "f64_mul x NaN = NaN"
| "f64_mul x y = signed_inf (f64_sign x * f64_sign y)"

text \<open>
  True division of float64 arrays: NumPy raises nothing on a zero divisor. It gives
  \<open>nan\<close> for \<open>0/0\<close> and a signed infinity otherwise (with a warning). The zero
  divisor is taken as \<open>+0.0\<close>, which is what \<open>std\<close> returns.
\<close>

fun f64_div :: "f64 \<Rightarrow> f64 \<Rightarrow> f64" where
  "f64_div (Fin a) (Fin b) = (if b \<noteq> 0 then Fin (a / b) else signed_inf (sgn a))"
| "f64_div NaN y = NaN"
| "f64_div x NaN = NaN"
| "f64_div (Fin a) y = Fin 0"
| "f64_div x (Fin b) = signed_inf (f64_sign x * (if b < 0 then - 1 else 1))"
| "f64_div x y = NaN"

fun f64_sqrt :: "f64 \<Rightarrow> f64" where
  "f64_sqrt (Fin x) = (if x < 0 then NaN else Fin (sqrt x))"
| "f64_sqrt PInf = PInf"
| "f64_sqrt NInf = NaN"
| "f64_sqrt NaN = NaN"

text \<open>\<open>np.minimum\<close> and \<open>np.maximum\<close>, which \<open>min\<close> and \<open>max\<close> reduce with:
  a \<open>nan\<close> operand gives \<open>nan\<close>.\<close>

fun f64_le :: "f64 \<Rightarrow> f64 \<Rightarrow> bool" where
  "f64_le (Fin a) (Fin b) = (a \<le> b)"
| "f64_le NaN y = False"
| "f64_le x NaN = False"
| "f64_le NInf y = True"
| "f64_le x PInf = True"
| "f64_le x y = False"

definition f64_minimum :: "f64 \<Rightarrow> f64 \<Rightarrow> f64" where
  "f64_minimum x y = (if x = NaN \<or> y = NaN then NaN else if f64_le x y then x else y)"

definition f64_maximum :: "f64 \<Rightarrow> f64 \<Rightarrow> f64" where
  "f64_maximum x y = (if x = NaN \<or> y = NaN then NaN else if f64_le x y then y else x)"

subsection \<open>Reductions over one axis\<close>

definition np_sum :: "f64 list \<Rightarrow> f64" where
  "np_sum xs = foldl f64_add (Fin 0) xs"

text \<open>\<open>mean\<close> of an empty slice is \<open>0/0 = nan\<close> (a warning, no exception).\<close>

definition np_mean :: "f64 list \<Rightarrow> f64" where
  "np_mean xs = f64_div (np_sum xs) (Fin (real (length xs)))"

text \<open>\<open>var\<close> and \<open>std\<close> with the default \<open>ddof=0\<close>: the mean of the squared
  deviations from the mean, and its square root.\<close>

definition np_var :: "f64 list \<Rightarrow> f64" where
  "np_var xs = (let m = np_mean xs in
     np_mean (map (\<lambda>x. let d = f64_sub x m in f64_mul d d) xs))"

definition np_std :: "f64 list \<Rightarrow> f64" where
  "np_std xs = f64_sqrt (np_var xs)"

subsection \<open>Two-dimensional arrays\<close>

text \<open>
  An array of shape \<open>(length (rows X), ncols X)\<close> with its dtype, by rows. The column
  count is a field of its own, so that the shape \<open>(0, k)\<close> is an array too.
\<close>

record ndarray =
  dtype :: string
  ncols :: nat
  rows :: "f64 list list"


fun the_fin :: "f64 \<Rightarrow> real" where
  "the_fin (Fin x) = x"
| "the_fin PInf = 0"
| "the_fin NInf = 0"
| "the_fin NaN = 0"

definition all_finite :: "ndarray \<Rightarrow> bool" where
  "all_finite X = list_all (list_all is_finite) (rows X)"

definition column :: "ndarray \<Rightarrow> nat \<Rightarrow> f64 list" where
  "column X j = map (\<lambda>r. r ! j) (rows X)"

definition columns :: "ndarray \<Rightarrow> f64 list list" where
  "columns X = map (column X) [0..<ncols X]"

text \<open>\<open>X.mean(0)\<close>, \<open>X.std(0)\<close>, \<open>X.min(0)\<close>, \<open>X.max(0)\<close>: one value per column.
  \<open>min\<close> and \<open>max\<close> have no identity: reducing an axis of length zero raises
  \<open>ValueError\<close>.\<close>

definition mean0 :: "ndarray \<Rightarrow> f64 list" where
  "mean0 X = map np_mean (columns X)"

definition std0 :: "ndarray \<Rightarrow> f64 list" where
  "std0 X = map np_std (columns X)"

definition var0 :: "ndarray \<Rightarrow> f64 list" where
  "var0 X = map np_var (columns X)"

definition min0 :: "ndarray \<Rightarrow> error + f64 list" where
  "min0 X = (if rows X = [] then Inl ValueError
     else Inr (map (\<lambda>c. foldl f64_minimum (hd c) (tl c)) (columns X)))"

definition max0 :: "ndarray \<Rightarrow> error + f64 list" where
  "max0 X = (if rows X = [] then Inl ValueError
     else Inr (map (\<lambda>c. foldl f64_maximum (hd c) (tl c)) (columns X)))"

text \<open>
  Broadcasting of two one-dimensional operands: equal lengths pair up, a length of one
  is stretched, anything else raises \<open>ValueError\<close> (operands could not be broadcast
  together).
\<close>

definition broadcast :: "(f64 \<Rightarrow> f64 \<Rightarrow> f64) \<Rightarrow> f64 list \<Rightarrow> f64 list \<Rightarrow> error + f64 list" where
  "broadcast f xs ys =
     (if length xs = length ys then Inr (map2 f xs ys)
      else if length ys = 1 then Inr (map (\<lambda>x. f x (hd ys)) xs)
      else if length xs = 1 then Inr (map (\<lambda>y. f (hd xs) y) ys)
      else Inl ValueError)"

text \<open>An array of shape \<open>(n, k)\<close> against a vector: the vector is stretched over the rows,
  and the result takes the dtype given.\<close>

definition broadcast_rows ::
  "(f64 \<Rightarrow> f64 \<Rightarrow> f64) \<Rightarrow> ndarray \<Rightarrow> f64 list \<Rightarrow> error + ndarray" where
  "broadcast_rows f X v =
     (if ncols X = length v \<or> length v = 1 \<or> ncols X = 1
      then Inr \<lparr>dtype = dtype X,
                ncols = (if ncols X = length v \<or> length v = 1 then ncols X else length v),
                rows = map (\<lambda>r. (if length r = length v then map2 f r v
                                   else if length v = 1 then map (\<lambda>x. f x (hd v)) r
                                   else map (\<lambda>y. f (hd r) y) v)) (rows X)\<rparr>
      else Inl ValueError)"

subsection \<open>TensorFlow tensors, random draws and the Normal distribution\<close>

text \<open>A tensor of rank two and shape \<open>(length (trows T), tcols T)\<close>, holding reals.\<close>

record tf_tensor =
  tcols :: nat
  trows :: "real list list"

text \<open>
  The process-wide random generator: the sequence of standard normal draws it will give,
  and how many it has given. \<open>tf.random.normal(shape)\<close> (mean \<open>0.0\<close> and stddev
  \<open>1.0\<close> by default) takes the next draws, one per element, and moves on.
\<close>

record rng =
  draws :: "nat \<Rightarrow> real"
  pos :: nat

definition random_normal_vec :: "nat \<Rightarrow> rng \<Rightarrow> real list \<times> rng" where
  "random_normal_vec n g = (map (\<lambda>j. draws g (pos g + j)) [0..<n], g\<lparr>pos := pos g + n\<rparr>)"

definition random_normal_mat :: "nat \<Rightarrow> nat \<Rightarrow> rng \<Rightarrow> real list list \<times> rng" where
  "random_normal_mat k u g =
     (map (\<lambda>i. map (\<lambda>j. draws g (pos g + i * u + j)) [0..<u]) [0..<k],
      g\<lparr>pos := pos g + k * u\<rparr>)"

definition softplus :: "real \<Rightarrow> real" where
  "softplus x = ln (1 + exp x)"

text \<open>\<open>tfp.distributions.Normal(loc, scale)\<close>: \<open>log_prob\<close> is the unnormalised
  logarithm minus the logarithm of the normalisation, and \<open>prob\<close> its exponential.\<close>

definition Normal_log_prob :: "real \<Rightarrow> real \<Rightarrow> real \<Rightarrow> real" where
  "Normal_log_prob loc scale x =
     - (1 / 2) * (x / scale - loc / scale)\<^sup>2 - (1 / 2 * ln (2 * pi) + ln scale)"

definition Normal_prob :: "real \<Rightarrow> real \<Rightarrow> real \<Rightarrow> real" where
  "Normal_prob loc scale x = exp (Normal_log_prob loc scale x)"

text \<open>The density of \<open>N(mu, sigma)\<close> as the specification writes it, to compare
  \<open>log_prob\<close> and \<open>prob\<close> with.\<close>

definition gauss_pdf :: "real \<Rightarrow> real \<Rightarrow> real \<Rightarrow> real" where
  "gauss_pdf mu sigma x = exp (- (x - mu)\<^sup>2 / (2 * sigma\<^sup>2)) / (sigma * sqrt (2 * pi))"

subsection \<open>\<open>DenseVariational\<close>\<close>

datatype activation = relu | linear

fun activate :: "activation \<Rightarrow> real \<Rightarrow> real" where
  "activate relu x = max 0 x"
| "activate linear x = x"

text \<open>
  The layer after \<open>build\<close>: its configuration and its four trainable variables,
  \<open>kernel_mu\<close> and \<open>kernel_rho\<close> of shape \<open>(input_shape[1], units)\<close>, \<open>bias_mu\<close> and
  \<open>bias_rho\<close> of shape \<open>(units,)\<close>. The prior's parameters are plain attributes: no
  \<open>add_weight\<close> makes a variable of them.
\<close>

record DenseVariational =
  units :: nat
  kl_weight :: real
  activation :: activation
  prior_sigma_1 :: real
  prior_sigma_2 :: real
  prior_pi :: real
  kernel_mu :: "real list list"
  bias_mu :: "real list"
  kernel_rho :: "real list list"
  bias_rho :: "real list"

definition prior_pi_1 :: "DenseVariational \<Rightarrow> real" where
  "prior_pi_1 L = prior_pi L"

definition prior_pi_2 :: "DenseVariational \<Rightarrow> real" where
  "prior_pi_2 L = 1 - prior_pi L"

definition init_sigma :: "DenseVariational \<Rightarrow> real" where
  "init_sigma L = sqrt (prior_pi_1 L * (prior_sigma_1 L)\<^sup>2 + prior_pi_2 L * (prior_sigma_2 L)\<^sup>2)"

text \<open>The shapes \<open>build\<close> gives the variables for an input of width \<open>k\<close>; a TensorFlow
  variable keeps its shape for life.\<close>

definition built :: "nat \<Rightarrow> DenseVariational \<Rightarrow> bool" where
  "built k L =
     (length (kernel_mu L) = k \<and> length (kernel_rho L) = k
      \<and> list_all (\<lambda>r. length r = units L) (kernel_mu L)
      \<and> list_all (\<lambda>r. length r = units L) (kernel_rho L)
      \<and> length (bias_mu L) = units L \<and> length (bias_rho L) = units L)"

text \<open>\<open>log_prior_prob\<close>: the constant \<open>c = np.log(np.expm1(1.))\<close> is added to the
  mixture's density under the logarithm. The formulas of the two Normal components are
  read for positive scales, as the constructor's defaults \<open>1.5\<close> and \<open>0.1\<close> are.\<close>

definition log_prior_prob :: "DenseVariational \<Rightarrow> real \<Rightarrow> real" where
  "log_prior_prob L w =
     (let c = ln (exp 1 - 1) in
      ln (c + prior_pi_1 L * Normal_prob 0 (prior_sigma_1 L) w
            + prior_pi_2 L * Normal_prob 0 (prior_sigma_2 L) w))"

text \<open>\<open>kl_loss\<close> on the elements of a tensor, listed in row order with the elements of
  \<open>mu\<close> and \<open>sigma\<close> beside them (\<open>K.sum\<close> adds over all of them).\<close>

definition kl_loss :: "DenseVariational \<Rightarrow> real list \<Rightarrow> real list \<Rightarrow> real list \<Rightarrow> real" where
  "kl_loss L w mu sigma =
     kl_weight L * (\<Sum>(x, m, s) \<leftarrow> zip w (zip mu sigma). Normal_log_prob m s x - log_prior_prob L x)"

text \<open>
  The specification's words for the same term: the density of the two-component mixture
  \<open>pi * N(0, sigma_1) + (1 - pi) * N(0, sigma_2)\<close>, and \<open>kl_weight\<close> times the sum of the
  log-density under \<open>N(mu, sigma)\<close> minus the log-density under the mixture.
\<close>

definition mixture_density :: "DenseVariational \<Rightarrow> real \<Rightarrow> real" where
  "mixture_density L w =
     prior_pi L * gauss_pdf 0 (prior_sigma_1 L) w + (1 - prior_pi L) * gauss_pdf 0 (prior_sigma_2 L) w"


definition kernel_sigma :: "DenseVariational \<Rightarrow> real list list" where
  "kernel_sigma L = map (map (\<lambda>r. 1 / 1000 + softplus (1 / 10 * r))) (kernel_rho L)"

definition bias_sigma :: "DenseVariational \<Rightarrow> real list" where
  "bias_sigma L = map (\<lambda>r. 1 / 1000 + softplus (1 / 10 * r)) (bias_rho L)"

text \<open>The weights one forward pass samples: \<open>mu + sigma * tf.random.normal(shape)\<close>, the
  kernel first and the bias after it.\<close>

definition sample_kernel :: "DenseVariational \<Rightarrow> rng \<Rightarrow> real list list \<times> rng" where
  "sample_kernel L g =
     (let (eps, g') = random_normal_mat (length (kernel_mu L)) (units L) g
      in (map2 (\<lambda>(ms, ss) es. map2 (\<lambda>(m, s) e. m + s * e) (zip ms ss) es)
            (zip (kernel_mu L) (kernel_sigma L)) eps, g'))"

definition sample_bias :: "DenseVariational \<Rightarrow> rng \<Rightarrow> real list \<times> rng" where
  "sample_bias L g =
     (let (eps, g') = random_normal_vec (length (bias_mu L)) g
      in (map2 (\<lambda>(m, s) e. m + s * e) (zip (bias_mu L) (bias_sigma L)) eps, g'))"

text \<open>\<open>K.dot(inputs, kernel) + bias\<close> on one row of the inputs.\<close>

definition dot_row :: "real list \<Rightarrow> real list list \<Rightarrow> real list \<Rightarrow> nat \<Rightarrow> real list" where
  "dot_row r kernel_w bias_w u =
     map (\<lambda>j. (\<Sum>l \<leftarrow> [0..<length kernel_w]. r ! l * (kernel_w ! l) ! j) + bias_w ! j) [0..<u]"

text \<open>
  \<open>call\<close>: the output, the loss handed to \<open>add_loss\<close> and the generator after the two
  draws. \<open>K.dot\<close> raises when the inputs' width is not the kernel's row count.
\<close>

definition call :: "DenseVariational \<Rightarrow> tf_tensor \<Rightarrow> rng \<Rightarrow> (tf_tensor \<times> real \<times> rng) outcome" where
  "call L inputs g =
     (let (kernel_w, g1) = sample_kernel L g;
          (bias_w, g2) = sample_bias L g1;
          added = kl_loss L (concat kernel_w) (concat (kernel_mu L)) (concat (kernel_sigma L))
                  + kl_loss L bias_w (bias_mu L) (bias_sigma L)
      in if tcols inputs \<noteq> length (kernel_mu L) then Raises InvalidArgumentError
         else Returns (\<lparr>tcols = units L,
                         trows = map (\<lambda>r. map (activate (activation L))
                                            (dot_row r kernel_w bias_w (units L))) (trows inputs)\<rparr>,
                       added, g2))"

text \<open>The \<open>Sequential\<close> model: the layers in order. A call returns the output, the
  model's \<open>losses\<close> (what each layer added during this pass) and the generator.\<close>

fun Sequential_call ::
  "DenseVariational list \<Rightarrow> tf_tensor \<Rightarrow> rng \<Rightarrow> (tf_tensor \<times> real list \<times> rng) outcome" where
  "Sequential_call [] x g = Returns (x, [], g)"
| "Sequential_call (L # Ls) x g =
     (case call L x g of
        Raises e \<Rightarrow> Raises e
      | NonFinite \<Rightarrow> NonFinite
      | Returns (y, added, g1) \<Rightarrow>
          (case Sequential_call Ls y g1 of
             Raises e \<Rightarrow> Raises e
           | NonFinite \<Rightarrow> NonFinite
           | Returns (z, losses, g2) \<Rightarrow> Returns (z, added # losses, g2)))"

text \<open>A model whose layers are built in a chain from an input of width \<open>k\<close>, and the
  number of draws one forward pass of it takes.\<close>

fun network_built :: "nat \<Rightarrow> DenseVariational list \<Rightarrow> bool" where
  "network_built k [] = True"
| "network_built k (L # Ls) = (built k L \<and> network_built (units L) Ls)"

fun draws_per_pass :: "DenseVariational list \<Rightarrow> nat" where
  "draws_per_pass [] = 0"
| "draws_per_pass (L # Ls) =
     length (kernel_mu L) * units L + length (bias_mu L) + draws_per_pass Ls"

subsection \<open>\<open>BayesianNeuralNetwork\<close>: the object and its constructor\<close>

definition NORM_NONE :: string where "NORM_NONE = ''none''"
definition NORM_MEANSTD :: string where "NORM_MEANSTD = ''meanstd''"
definition NORM_CENTER :: string where "NORM_CENTER = ''center''"
definition NORM_MINMAX :: string where "NORM_MINMAX = ''minmax''"

text \<open>What a logger has been told, in order.\<close>

datatype log_event =
    log_train_start
  | log_train_epoch nat real
  | log_train_end int real

text \<open>
  The attributes \<open>__init__\<close> sets. \<open>dtype\<close> is always \<open>"float64"\<close> and is left to
  \<open>tensor\<close>; the Adam optimizer is TensorFlow's and is handed to \<open>fit\<close> from outside.
  \<open>norm\<close> is the field \<open>norm_mode\<close>, and \<open>logger\<close> is \<open>None\<close> or the record of what
  the logger was told.
\<close>

record BayesianNeuralNetwork =
  layers :: "nat list"
  lr :: real
  klw :: real
  norm_bounds :: "(f64 list \<times> f64 list) option"
  logger :: "log_event list option"
  batch_size :: nat
  norm_mode :: string
  adv_eps :: "real option"
  soft_0 :: real
  sigma_alea :: real
  model :: "DenseVariational list"

text \<open>\<open>DenseVariational.__init__\<close> with the prior's defaults, before \<open>build\<close>.\<close>

definition DenseVariational_init :: "nat \<Rightarrow> real \<Rightarrow> activation \<Rightarrow> DenseVariational" where
  "DenseVariational_init width kw act =
     \<lparr>units = width, kl_weight = kw, activation = act,
      prior_sigma_1 = 3 / 2, prior_sigma_2 = 1 / 10, prior_pi = 1 / 2,
      kernel_mu = [], bias_mu = [], kernel_rho = [], bias_rho = []\<rparr>"

text \<open>\<open>build\<close> for an input of width \<open>k\<close>: the means start at \<open>init_sigma\<close> times a
  standard normal draw (\<open>RandomNormal(stddev=init_sigma)\<close>), the \<open>rho\<close>s at zero.\<close>

definition build :: "nat \<Rightarrow> DenseVariational \<Rightarrow> rng \<Rightarrow> DenseVariational \<times> rng" where
  "build k L g =
     (let (ek, g1) = random_normal_mat k (units L) g;
          (eb, g2) = random_normal_vec (units L) g1
      in (L\<lparr>kernel_mu := map (map (\<lambda>e. init_sigma L * e)) ek,
             bias_mu := map (\<lambda>e. init_sigma L * e) eb,
             kernel_rho := replicate k (replicate (units L) 0),
             bias_rho := replicate (units L) 0\<rparr>, g2))"

fun build_all :: "nat \<Rightarrow> DenseVariational list \<Rightarrow> rng \<Rightarrow> DenseVariational list \<times> rng" where
  "build_all k [] g = ([], g)"
| "build_all k (L # Ls) g =
     (let (L', g1) = build k L g;
          (Ls', g2) = build_all (units L) Ls g1
      in (L' # Ls', g2))"

text \<open>\<open>build_model\<close>: \<open>layers[-1]\<close> raises \<open>IndexError\<close> on an empty list; the hidden
  widths are \<open>layers[1:-1]\<close>.\<close>

definition build_model :: "nat list \<Rightarrow> real \<Rightarrow> rng \<Rightarrow> error + (DenseVariational list \<times> rng)" where
  "build_model ls kw g =
     (if ls = [] then Inl IndexError
      else let n_L = last ls
           in Inr (build_all (hd ls)
                     (map (\<lambda>width. DenseVariational_init width kw relu) (butlast (tl ls))
                      @ [DenseVariational_init n_L kw linear]) g))"

text \<open>\<open>__init__(layers, lr, klw, soft_0, sigma_alea, adv_eps, norm, model, norm_bounds)\<close>.\<close>

definition BayesianNeuralNetwork_init ::
  "nat list \<Rightarrow> real \<Rightarrow> real \<Rightarrow> real \<Rightarrow> real \<Rightarrow> real option \<Rightarrow> string
   \<Rightarrow> DenseVariational list option \<Rightarrow> (f64 list \<times> f64 list) option \<Rightarrow> rng
   \<Rightarrow> error + (BayesianNeuralNetwork \<times> rng)" where
  "BayesianNeuralNetwork_init ls rate kw s0 sa ae nm mdl nb g =
     (let self = \<lparr>layers = ls, lr = rate, klw = kw, norm_bounds = nb, logger = None,
                  batch_size = 0, norm_mode = nm, adv_eps = ae, soft_0 = s0,
                  sigma_alea = sa, model = []\<rparr>
      in case mdl of
           Some m \<Rightarrow> Inr (self\<lparr>model := m\<rparr>, g)
         | None \<Rightarrow>
             (case build_model ls kw g of
                Inl e \<Rightarrow> Inl e
              | Inr (m, g') \<Rightarrow> Inr (self\<lparr>model := m\<rparr>, g')))"

text \<open>The defaults of the constructor's keyword arguments.\<close>

definition default_soft_0 :: real where "default_soft_0 = 1 / 100"
definition default_sigma_alea :: real where "default_sigma_alea = 1 / 100"

subsection \<open>Normalisation\<close>

text \<open>\<open>tensor\<close>: \<open>X.astype("float64")\<close>, the same values under the model's dtype.\<close>

definition tensor :: "ndarray \<Rightarrow> ndarray" where
  "tensor X = X\<lparr>dtype := ''float64''\<rparr>"

definition set_normalize_bounds ::
  "BayesianNeuralNetwork \<Rightarrow> ndarray \<Rightarrow> error + BayesianNeuralNetwork" where
  "set_normalize_bounds self X =
     (if norm_mode self = NORM_CENTER \<or> norm_mode self = NORM_MINMAX then
        (case min0 X of
           Inl e \<Rightarrow> Inl e
         | Inr lb \<Rightarrow>
             (case max0 X of
                Inl e \<Rightarrow> Inl e
              | Inr ub \<Rightarrow> Inr (self\<lparr>norm_bounds := Some (lb, ub)\<rparr>)))
      else if norm_mode self = NORM_MEANSTD then
        Inr (self\<lparr>norm_bounds := Some (mean0 X, std0 X)\<rparr>)
      else Inr self)"

definition normalize_input :: "BayesianNeuralNetwork \<Rightarrow> ndarray \<Rightarrow> error + ndarray" where
  "normalize_input self X =
     (case norm_bounds self of
        None \<Rightarrow> Inr (tensor X)
      | Some (b1, b2) \<Rightarrow>
          if norm_mode self = NORM_CENTER then
            (case broadcast_rows f64_sub X b1 of
               Inl e \<Rightarrow> Inl e
             | Inr D \<Rightarrow>
                 (case broadcast f64_sub b2 b1 of
                    Inl e \<Rightarrow> Inl e
                  | Inr w \<Rightarrow>
                      (case broadcast_rows f64_sub D (map (f64_mul (Fin (1 / 2))) w) of
                         Inl e \<Rightarrow> Inl e
                       | Inr Y \<Rightarrow> Inr (tensor Y))))
          else if norm_mode self = NORM_MEANSTD then
            (case broadcast_rows f64_sub X b1 of
               Inl e \<Rightarrow> Inl e
             | Inr D \<Rightarrow>
                 (case broadcast_rows f64_div D b2 of
                    Inl e \<Rightarrow> Inl e
                  | Inr Y \<Rightarrow> Inr (tensor Y)))
          else Inr (tensor X))"

subsection \<open>The loss and one training step\<close>

text \<open>A NumPy array handed to TensorFlow: a tensor of its values when all are finite.\<close>

definition to_tensor :: "ndarray \<Rightarrow> tf_tensor outcome" where
  "to_tensor X =
     (if all_finite X then Returns \<lparr>tcols = ncols X, trows = map (map the_fin) (rows X)\<rparr>
      else NonFinite)"

text \<open>
  Broadcasting of two tensors of rank two, dimension by dimension: equal sizes pair up
  and a size of one is stretched; anything else raises.
\<close>

definition bcompat :: "nat \<Rightarrow> nat \<Rightarrow> bool" where
  "bcompat n m = (n = m \<or> n = 1 \<or> m = 1)"

definition bdim :: "nat \<Rightarrow> nat \<Rightarrow> nat" where
  "bdim n m = (if n = 1 then m else n)"

definition bpick :: "nat \<Rightarrow> nat \<Rightarrow> nat" where
  "bpick n i = (if n = 1 then 0 else i)"

definition broadcast2 ::
  "(real \<Rightarrow> real \<Rightarrow> real) \<Rightarrow> tf_tensor \<Rightarrow> tf_tensor \<Rightarrow> tf_tensor outcome" where
  "broadcast2 f A B =
     (let na = length (trows A); nb = length (trows B); ca = tcols A; cb = tcols B
      in if bcompat na nb \<and> bcompat ca cb then
           Returns \<lparr>tcols = bdim ca cb,
                    trows = map (\<lambda>i. map (\<lambda>j. f (trows A ! bpick na i ! bpick ca j)
                                              (trows B ! bpick nb i ! bpick cb j))
                                       [0..<bdim ca cb]) [0..<bdim na nb]\<rparr>
         else Raises InvalidArgumentError)"

text \<open>\<open>K.sum\<close>: the sum of all elements.\<close>

definition K_sum :: "tf_tensor \<Rightarrow> real" where
  "K_sum T = (\<Sum>r \<leftarrow> trows T. sum_list r)"

text \<open>
  \<open>loss(y_obs, y_pred)\<close>, the negative log-likelihood:
  \<open>K.sum(-Normal(loc=y_pred, scale=sigma_alea).log_prob(y_obs))\<close>. A scale that is not
  positive takes the logarithm out of the reals.
\<close>

definition loss :: "BayesianNeuralNetwork \<Rightarrow> tf_tensor \<Rightarrow> tf_tensor \<Rightarrow> real outcome" where
  "loss self y_obs y_pred =
     (case broadcast2 (\<lambda>obs pred. - Normal_log_prob pred (sigma_alea self) obs) y_obs y_pred of
        Raises e \<Rightarrow> Raises e
      | NonFinite \<Rightarrow> NonFinite
      | Returns T \<Rightarrow> if sigma_alea self \<le> 0 then NonFinite else Returns (K_sum T))"

text \<open>
  What \<open>grad\<close> computes under the tape, \<open>self.loss(v, self.model(X))\<close>: the loss value,
  with the model's \<open>losses\<close> and the generator as the forward pass leaves them.
\<close>

definition forward_loss ::
  "BayesianNeuralNetwork \<Rightarrow> tf_tensor \<Rightarrow> tf_tensor \<Rightarrow> rng \<Rightarrow> (real \<times> real list \<times> rng) outcome" where
  "forward_loss self X v g =
     (case Sequential_call (model self) X g of
        Raises e \<Rightarrow> Raises e
      | NonFinite \<Rightarrow> NonFinite
      | Returns (y_pred, losses, g') \<Rightarrow>
          (case loss self v y_pred of
             Raises e \<Rightarrow> Raises e
           | NonFinite \<Rightarrow> NonFinite
           | Returns loss_value \<Rightarrow> Returns (loss_value, losses, g')))"

text \<open>\<open>wrap_training_variables\<close>: the model's trainable variables, layer by layer in the
  order \<open>build\<close> adds them.\<close>

type_synonym variables = "(real list list \<times> real list \<times> real list list \<times> real list) list"

definition wrap_training_variables :: "BayesianNeuralNetwork \<Rightarrow> variables" where
  "wrap_training_variables self =
     map (\<lambda>L. (kernel_mu L, bias_mu L, kernel_rho L, bias_rho L)) (model self)"

text \<open>An update of the variables (what \<open>apply_gradients\<close> does to them): new values for
  the four variables of each layer, and nothing else of the layer.\<close>

definition assign_layer ::
  "real list list \<times> real list \<times> real list list \<times> real list \<Rightarrow> DenseVariational \<Rightarrow> DenseVariational" where
  "assign_layer v L =
     (case v of (km, bm, kr, br) \<Rightarrow>
        L\<lparr>kernel_mu := km, bias_mu := bm, kernel_rho := kr, bias_rho := br\<rparr>)"

definition assign_variables :: "variables \<Rightarrow> BayesianNeuralNetwork \<Rightarrow> BayesianNeuralNetwork" where
  "assign_variables vs self = self\<lparr>model := map2 assign_layer vs (model self)\<rparr>"

text \<open>
  The function the tape differentiates: the loss value as a function of the trainable
  variables, the inputs and the draws of this pass held fixed. \<open>tape.gradient\<close> returns
  its gradient at the model's variables, so the gradients stand in the model as this
  function.
\<close>

definition tape_loss ::
  "BayesianNeuralNetwork \<Rightarrow> tf_tensor \<Rightarrow> tf_tensor \<Rightarrow> rng \<Rightarrow> variables \<Rightarrow> real outcome" where
  "tape_loss self X v g vs =
     (case forward_loss (assign_variables vs self) X v g of
        Raises e \<Rightarrow> Raises e
      | NonFinite \<Rightarrow> NonFinite
      | Returns (loss_value, losses, g') \<Rightarrow> Returns loss_value)"

definition grad ::
  "BayesianNeuralNetwork \<Rightarrow> tf_tensor \<Rightarrow> tf_tensor \<Rightarrow> rng
   \<Rightarrow> (real \<times> (variables \<Rightarrow> real outcome) \<times> real list \<times> rng) outcome" where
  "grad self X v g =
     (case forward_loss self X v g of
        Raises e \<Rightarrow> Raises e
      | NonFinite \<Rightarrow> NonFinite
      | Returns (loss_value, losses, g') \<Rightarrow>
          Returns (loss_value, tape_loss self X v g, losses, g'))"

subsection \<open>\<open>fit\<close>\<close>

definition tell :: "log_event \<Rightarrow> BayesianNeuralNetwork \<Rightarrow> BayesianNeuralNetwork" where
  "tell ev self = self\<lparr>logger := map_option (\<lambda>evs. evs @ [ev]) (logger self)\<rparr>"

text \<open>
  The epochs: \<open>grad\<close>, then \<open>optimizer.apply_gradients\<close>, then the logger. The optimizer
  is a parameter: from its state, the gradients and the variables it gives its new state
  and the variables' new values.
\<close>

fun epochs_loop ::
  "('s \<Rightarrow> (variables \<Rightarrow> real outcome) \<Rightarrow> variables \<Rightarrow> 's \<times> variables)
   \<Rightarrow> ndarray \<Rightarrow> ndarray \<Rightarrow> nat \<Rightarrow> nat \<Rightarrow> BayesianNeuralNetwork \<Rightarrow> 's \<Rightarrow> rng
   \<Rightarrow> (BayesianNeuralNetwork \<times> 's \<times> rng) outcome" where
  "epochs_loop apply_gradients X v 0 e self opt g = Returns (self, opt, g)"
| "epochs_loop apply_gradients X v (Suc n) e self opt g =
     (case to_tensor X of
        Raises err \<Rightarrow> Raises err
      | NonFinite \<Rightarrow> NonFinite
      | Returns Xt \<Rightarrow>
          (case to_tensor v of
             Raises err \<Rightarrow> Raises err
           | NonFinite \<Rightarrow> NonFinite
           | Returns vt \<Rightarrow>
               (case grad self Xt vt g of
                  Raises err \<Rightarrow> Raises err
                | NonFinite \<Rightarrow> NonFinite
                | Returns (loss_value, grads, losses, g') \<Rightarrow>
                    (let (opt', vs) = apply_gradients opt grads (wrap_training_variables self)
                     in epochs_loop apply_gradients X v n (Suc e)
                          (tell (log_train_epoch e loss_value) (assign_variables vs self))
                          opt' g'))))"

text \<open>\<open>fit(X_v, v, epochs, logger)\<close>; \<open>range(epochs)\<close> is empty for a count that is not
  positive.\<close>

definition fit ::
  "('s \<Rightarrow> (variables \<Rightarrow> real outcome) \<Rightarrow> variables \<Rightarrow> 's \<times> variables)
   \<Rightarrow> BayesianNeuralNetwork \<Rightarrow> ndarray \<Rightarrow> ndarray \<Rightarrow> int \<Rightarrow> log_event list option \<Rightarrow> 's \<Rightarrow> rng
   \<Rightarrow> (BayesianNeuralNetwork \<times> 's \<times> rng) outcome" where
  "fit apply_gradients self X_v v epochs lg opt g =
     (let self1 = tell log_train_start (self\<lparr>logger := lg\<rparr>)
      in case set_normalize_bounds self1 X_v of
           Inl err \<Rightarrow> Raises err
         | Inr self2 \<Rightarrow>
             (case normalize_input self2 X_v of
                Inl err \<Rightarrow> Raises err
              | Inr Xn \<Rightarrow>
                  (case epochs_loop apply_gradients Xn (tensor v) (nat epochs) 0 self2 opt g of
                     Raises err \<Rightarrow> Raises err
                   | NonFinite \<Rightarrow> NonFinite
                   | Returns (self3, opt', g') \<Rightarrow>
                       Returns (tell (log_train_end epochs 0) self3, opt', g'))))"

subsection \<open>\<open>predict\<close>\<close>

text \<open>
  \<open>y_pred_samples[i, ...] = self.model(X).numpy()\<close>: the output of shape \<open>(n, u)\<close> is
  written into a slice of shape \<open>(n, n_L)\<close>, stretched when \<open>u = 1\<close>; any other width
  raises \<open>ValueError\<close>.
\<close>

definition into_slice :: "nat \<Rightarrow> tf_tensor \<Rightarrow> error + f64 list list" where
  "into_slice n_L T =
     (if tcols T = n_L then Inr (map (map Fin) (trows T))
      else if tcols T = 1 then Inr (map (\<lambda>r. replicate n_L (Fin (hd r))) (trows T))
      else Inl ValueError)"

fun samples_loop ::
  "BayesianNeuralNetwork \<Rightarrow> ndarray \<Rightarrow> nat \<Rightarrow> nat \<Rightarrow> nat \<Rightarrow> f64 list list list \<Rightarrow> rng
   \<Rightarrow> (f64 list list list \<times> rng) outcome" where
  "samples_loop self X n_L 0 i y_pred_samples g = Returns (y_pred_samples, g)"
| "samples_loop self X n_L (Suc n) i y_pred_samples g =
     (case to_tensor X of
        Raises err \<Rightarrow> Raises err
      | NonFinite \<Rightarrow> NonFinite
      | Returns Xt \<Rightarrow>
          (case Sequential_call (model self) Xt g of
             Raises err \<Rightarrow> Raises err
           | NonFinite \<Rightarrow> NonFinite
           | Returns (y, losses, g') \<Rightarrow>
               (case into_slice n_L y of
                  Inl err \<Rightarrow> Raises err
                | Inr S \<Rightarrow>
                    samples_loop self X n_L n (Suc i) (y_pred_samples[i := S]) g')))"

text \<open>\<open>mean(0)\<close> and \<open>var(0)\<close> of an array of shape \<open>(samples, n, n_L)\<close>: one value for
  each place \<open>(r, c)\<close>, over the samples.\<close>

definition along_samples ::
  "(f64 list \<Rightarrow> f64) \<Rightarrow> nat \<Rightarrow> nat \<Rightarrow> f64 list list list \<Rightarrow> ndarray" where
  "along_samples reduce n n_L ys =
     \<lparr>dtype = ''float64'', ncols = n_L,
      rows = map (\<lambda>r. map (\<lambda>c. reduce (map (\<lambda>S. S ! r ! c) ys)) [0..<n_L]) [0..<n]\<rparr>"

text \<open>
  \<open>predict(X, samples)\<close>: \<open>self.layers[-1]\<close> raises \<open>IndexError\<close> on an empty list and
  \<open>np.zeros\<close> raises \<open>ValueError\<close> on a negative count.
\<close>

definition predict ::
  "BayesianNeuralNetwork \<Rightarrow> ndarray \<Rightarrow> int \<Rightarrow> rng \<Rightarrow> ((ndarray \<times> ndarray) \<times> rng) outcome" where
  "predict self X samples g =
     (case normalize_input self X of
        Inl err \<Rightarrow> Raises err
      | Inr Xn \<Rightarrow>
          if layers self = [] then Raises IndexError
          else if samples < 0 then Raises ValueError
          else
            (let n = length (rows Xn); n_L = last (layers self);
                 zeros = replicate (nat samples) (replicate n (replicate n_L (Fin 0)))
             in case samples_loop self Xn n_L (nat samples) 0 zeros g of
                  Raises err \<Rightarrow> Raises err
                | NonFinite \<Rightarrow> NonFinite
                | Returns (y_pred_samples, g') \<Rightarrow>
                    Returns ((along_samples np_mean n n_L y_pred_samples,
                              along_samples np_var n n_L y_pred_samples), g')))"

definition default_samples :: int where "default_samples = 200"

text \<open>
  Forward passes of the model on one input, one after the other, each starting with the
  generator as the one before left it: the outputs in order.
\<close>

fun forward_passes ::
  "DenseVariational list \<Rightarrow> tf_tensor \<Rightarrow> nat \<Rightarrow> rng \<Rightarrow> (tf_tensor list \<times> rng) outcome" where
  "forward_passes m X 0 g = Returns ([], g)"
| "forward_passes m X (Suc n) g =
     (case Sequential_call m X g of
        Raises err \<Rightarrow> Raises err
      | NonFinite \<Rightarrow> NonFinite
      | Returns (y, losses, g1) \<Rightarrow>
          (case forward_passes m X n g1 of
             Raises err \<Rightarrow> Raises err
           | NonFinite \<Rightarrow> NonFinite
           | Returns (ys, g2) \<Rightarrow> Returns (y # ys, g2)))"

subsection \<open>Persistence\<close>

text \<open>
  The file system: what each existing path holds. \<open>pickle.dump\<close> writes the tuple
  \<open>(layers, lr, klw, norm, norm_bounds)\<close>; \<open>save_model\<close> writes the Keras model.
\<close>

datatype artifact =
    Pickled "nat list \<times> real \<times> real \<times> string \<times> (f64 list \<times> f64 list) option"
  | SavedModel "DenseVariational list"
  | OtherFile

type_synonym filesystem = "string \<rightharpoonup> artifact"

text \<open>What \<open>load_from\<close> does to the outside world, in order.\<close>

datatype io_event =
    path_exists string
  | print string
  | pickle_load string
  | load_model string

definition save_to :: "BayesianNeuralNetwork \<Rightarrow> string \<Rightarrow> string \<Rightarrow> filesystem \<Rightarrow> filesystem" where
  "save_to self model_path params_path fs =
     (fs(params_path \<mapsto> Pickled (layers self, lr self, klw self, norm_mode self, norm_bounds self)))
       (model_path \<mapsto> SavedModel (model self))"

text \<open>
  \<open>load_from\<close>: the two existence checks come first and raise with a fixed message each.
  The constructor is called with the five pickled values and the model; its other
  arguments take their defaults.
\<close>

definition load_from ::
  "string \<Rightarrow> string \<Rightarrow> filesystem \<Rightarrow> rng
   \<Rightarrow> io_event list \<times> (error + (BayesianNeuralNetwork \<times> rng))" where
  "load_from model_path params_path fs g =
     (if fs model_path = None then
        ([path_exists model_path], Inl (FileNotFoundError ''Can't find cached model.''))
      else if fs params_path = None then
        ([path_exists model_path, path_exists params_path],
         Inl (FileNotFoundError ''Can't find cached model params.''))
      else
        (case fs params_path of
           Some (Pickled (ls, rate, kw, nm, nb)) \<Rightarrow>
             (case fs model_path of
                Some (SavedModel m) \<Rightarrow>
                  ([path_exists model_path, path_exists params_path,
                    print (''Loading model from '' @ model_path), pickle_load params_path,
                    print (''Loading model params from '' @ params_path), load_model model_path],
                   BayesianNeuralNetwork_init ls rate kw default_soft_0 default_sigma_alea None
                     nm (Some m) nb g)
              | _ \<Rightarrow>
                  ([path_exists model_path, path_exists params_path,
                    print (''Loading model from '' @ model_path), pickle_load params_path,
                    print (''Loading model params from '' @ params_path), load_model model_path],
                   Inl LoadModelError))
         | _ \<Rightarrow>
             ([path_exists model_path, path_exists params_path,
               print (''Loading model from '' @ model_path), pickle_load params_path],
              Inl UnpicklingError)))"

text \<open>Whether a message contains a path, as a run of consecutive characters.\<close>

fun starts_with :: "string \<Rightarrow> string \<Rightarrow> bool" where
  "starts_with [] s = True"
| "starts_with (c # cs) [] = False"
| "starts_with (c # cs) (d # ds) = (c = d \<and> starts_with cs ds)"

fun names_path :: "string \<Rightarrow> string \<Rightarrow> bool" where
  "names_path [] path = (path = [])"
| "names_path (c # cs) path = (starts_with path (c # cs) \<or> names_path cs path)"

section \<open>Properties of the normaliser\<close>

subsection \<open>Reductions on finite values\<close>

lemma foldl_f64_add_Fin: "foldl f64_add (Fin a) (map Fin xs) = Fin (a + sum_list xs)"
  by (induction xs arbitrary: a) (simp_all add: add.assoc)

lemma np_sum_Fin: "np_sum (map Fin xs) = Fin (sum_list xs)"
  by (simp add: np_sum_def foldl_f64_add_Fin)

lemma np_mean_Fin: "xs \<noteq> [] \<Longrightarrow> np_mean (map Fin xs) = Fin (sum_list xs / real (length xs))"
  by (simp add: np_mean_def np_sum_Fin)

lemma np_var_Fin:
  "xs \<noteq> [] \<Longrightarrow> np_var (map Fin xs) =
     Fin ((\<Sum>x\<leftarrow>xs. (x - sum_list xs / real (length xs))\<^sup>2) / real (length xs))"
proof -
  assume ne: "xs \<noteq> []"
  let ?m = "sum_list xs / real (length xs)"
  have "map (\<lambda>x. let d = f64_sub x (Fin ?m) in f64_mul d d) (map Fin xs)
        = map Fin (map (\<lambda>x. (x - ?m)\<^sup>2) xs)"
    by (simp add: f64_sub_def Let_def power2_eq_square)
  then show ?thesis
    using ne np_mean_Fin[of "map (\<lambda>x. (x - ?m)\<^sup>2) xs"]
    by (simp add: np_var_def np_mean_Fin Let_def del: map_map)
qed


subsection \<open>Columns of a broadcast\<close>




subsection \<open>Mean and variance of a standardised list\<close>




lemma norm_names_distinct:
  "NORM_MEANSTD \<noteq> NORM_CENTER" "NORM_MEANSTD \<noteq> NORM_MINMAX"
  "NORM_MINMAX \<noteq> NORM_CENTER" "NORM_MINMAX \<noteq> NORM_MEANSTD"
  "NORM_NONE \<noteq> NORM_CENTER" "NORM_NONE \<noteq> NORM_MEANSTD" "NORM_NONE \<noteq> NORM_MINMAX"
  by (simp_all add: NORM_MEANSTD_def NORM_CENTER_def NORM_MINMAX_def NORM_NONE_def)





lemma var0_nth: "j < ncols X \<Longrightarrow> var0 X ! j = np_var (column X j)"
  by (simp add: var0_def columns_def)









text \<open>
  Claim C8. With bounds that were never set (\<open>norm_bounds\<close> is \<open>None\<close>), \<open>normalize(X)\<close>
  raises nothing and returns \<open>X\<close> cast to \<open>float64\<close>: the same shape and the same
  values. The mode is not looked at, so this holds in every mode.
\<close>

theorem normalize_without_bounds_is_cast:
  assumes "norm_bounds self = None"
  shows "normalize_input self X = Inr (tensor X)
         \<and> rows (tensor X) = rows X \<and> ncols (tensor X) = ncols X
         \<and> dtype (tensor X) = ''float64''"
  using assms by (simp add: normalize_input_def tensor_def)

theorem normalize_without_bounds_witness:
  "norm_bounds \<lparr>layers = [1, 1], lr = 1 / 100, klw = 1, norm_bounds = None, logger = None,
        batch_size = 0, norm_mode = NORM_MEANSTD, adv_eps = None, soft_0 = 1 / 100,
        sigma_alea = 1 / 100, model = []\<rparr> = None
   \<and> normalize_input \<lparr>layers = [1, 1], lr = 1 / 100, klw = 1, norm_bounds = None, logger = None,
        batch_size = 0, norm_mode = NORM_MEANSTD, adv_eps = None, soft_0 = 1 / 100,
        sigma_alea = 1 / 100, model = []\<rparr>
        \<lparr>dtype = ''int64'', ncols = Suc 0, rows = [[Fin 0], [Fin 2]]\<rparr>
      = Inr \<lparr>dtype = ''float64'', ncols = Suc 0, rows = [[Fin 0], [Fin 2]]\<rparr>"
  using normalize_without_bounds_is_cast[of
      "\<lparr>layers = [1, 1], lr = 1 / 100, klw = 1, norm_bounds = None, logger = None,
        batch_size = 0, norm_mode = NORM_MEANSTD, adv_eps = None, soft_0 = 1 / 100,
        sigma_alea = 1 / 100, model = []\<rparr>"
      "\<lparr>dtype = ''int64'', ncols = Suc 0, rows = [[Fin 0], [Fin 2]]\<rparr>"]
  by (simp add: tensor_def)

text \<open>In mode \<open>minmax\<close> no branch of \<open>normalize\<close> applies, whatever the bounds are.\<close>

lemma normalize_minmax:
  "norm_mode self = NORM_MINMAX \<Longrightarrow> normalize_input self X = Inr (tensor X)"
  by (simp add: normalize_input_def norm_names_distinct split: option.splits)

text \<open>
  Claim C5 fails on the code. In mode \<open>minmax\<close>, \<open>set_normalize_bounds\<close> stores the
  column minima and maxima (it shares the branch of \<open>center\<close>), but \<open>normalize\<close> has a
  branch for \<open>center\<close> and one for \<open>meanstd\<close> only: the input comes back unchanged. For
  the input \<open>[[1], [3]]\<close> the bounds \<open>([1], [3])\<close> are stored, \<open>normalize\<close> returns
  \<open>[[1], [3]]\<close>, and with the same bounds the mode \<open>center\<close> returns \<open>[[-1], [1]]\<close>.
\<close>

theorem minmax_normalize_returns_input:
  "set_normalize_bounds
     \<lparr>layers = [1, 1], lr = 1 / 100, klw = 1, norm_bounds = None, logger = None,
      batch_size = 0, norm_mode = NORM_MINMAX, adv_eps = None, soft_0 = 1 / 100,
      sigma_alea = 1 / 100, model = []\<rparr>
     \<lparr>dtype = ''float64'', ncols = Suc 0, rows = [[Fin 1], [Fin 3]]\<rparr>
   = Inr \<lparr>layers = [1, 1], lr = 1 / 100, klw = 1, norm_bounds = Some ([Fin 1], [Fin 3]),
          logger = None, batch_size = 0, norm_mode = NORM_MINMAX, adv_eps = None,
          soft_0 = 1 / 100, sigma_alea = 1 / 100, model = []\<rparr>
   \<and> normalize_input
       \<lparr>layers = [1, 1], lr = 1 / 100, klw = 1, norm_bounds = Some ([Fin 1], [Fin 3]),
        logger = None, batch_size = 0, norm_mode = NORM_MINMAX, adv_eps = None,
        soft_0 = 1 / 100, sigma_alea = 1 / 100, model = []\<rparr>
       \<lparr>dtype = ''float64'', ncols = Suc 0, rows = [[Fin 1], [Fin 3]]\<rparr>
     = Inr \<lparr>dtype = ''float64'', ncols = Suc 0, rows = [[Fin 1], [Fin 3]]\<rparr>
   \<and> normalize_input
       \<lparr>layers = [1, 1], lr = 1 / 100, klw = 1, norm_bounds = Some ([Fin 1], [Fin 3]),
        logger = None, batch_size = 0, norm_mode = NORM_CENTER, adv_eps = None,
        soft_0 = 1 / 100, sigma_alea = 1 / 100, model = []\<rparr>
       \<lparr>dtype = ''float64'', ncols = Suc 0, rows = [[Fin 1], [Fin 3]]\<rparr>
     = Inr \<lparr>dtype = ''float64'', ncols = Suc 0, rows = [[Fin (- 1)], [Fin 1]]\<rparr>"
  by (simp add: set_normalize_bounds_def normalize_input_def norm_names_distinct min0_def max0_def
      columns_def column_def f64_minimum_def f64_maximum_def tensor_def broadcast_rows_def
      broadcast_def f64_sub_def)

section \<open>Properties of persistence\<close>

text \<open>
  Claim C4, amended. When either file is absent, \<open>load_from\<close> raises
  \<open>FileNotFoundError\<close> after the existence checks and before anything is printed or
  read, so nothing is loaded in part. The message is a fixed text: \<open>Can't find cached
  model.\<close> when the model file is absent, \<open>Can't find cached model params.\<close> when only
  the parameter file is. It tells which of the two artifacts is missing; it does not
  contain the path.
\<close>

theorem load_from_missing_artifact:
  assumes "fs model_path = None \<or> fs params_path = None"
  shows "load_from model_path params_path fs g =
           (if fs model_path = None
            then ([path_exists model_path],
                  Inl (FileNotFoundError ''Can't find cached model.''))
            else ([path_exists model_path, path_exists params_path],
                  Inl (FileNotFoundError ''Can't find cached model params.'')))"
  using assms by (auto simp add: load_from_def)

theorem load_from_missing_artifact_witness:
  "load_from ''run/model.h5'' ''run/params.pkl'' [''run/model.h5'' \<mapsto> SavedModel []]
     \<lparr>draws = (\<lambda>n. 0), pos = 0\<rparr>
   = ([path_exists ''run/model.h5'', path_exists ''run/params.pkl''],
      Inl (FileNotFoundError ''Can't find cached model params.''))"
  using load_from_missing_artifact[of "[''run/model.h5'' \<mapsto> SavedModel []]"
      "''run/model.h5''" "''run/params.pkl''" "\<lparr>draws = (\<lambda>n. 0), pos = 0\<rparr>"]
  by simp

text \<open>
  Claim C4 as stated fails: with no file at \<open>run/model.h5\<close> the message is \<open>Can't find
  cached model.\<close>, in which the path does not occur.
\<close>

theorem load_from_message_omits_path:
  "load_from ''run/model.h5'' ''run/params.pkl'' Map.empty \<lparr>draws = (\<lambda>n. 0), pos = 0\<rparr>
     = ([path_exists ''run/model.h5''], Inl (FileNotFoundError ''Can't find cached model.''))
   \<and> \<not> names_path ''Can't find cached model.'' ''run/model.h5''"
  by (simp add: load_from_def)

text \<open>
  Claim C3, amended. Saving to two distinct paths and loading from them returns an
  instance with the layer widths, the learning rate, the KL weight, the normalisation
  mode, the normalisation bounds and the model of the saved one. \<open>soft_0\<close>,
  \<open>sigma_alea\<close> and \<open>adv_eps\<close> are not written by \<open>save_to\<close>: the returned instance
  holds the constructor's defaults \<open>0.01\<close>, \<open>0.01\<close> and \<open>None\<close>.
\<close>

theorem save_then_load:
  assumes "model_path \<noteq> params_path"
  shows "\<exists>log m'. load_from model_path params_path (save_to m model_path params_path fs) g
                    = (log, Inr (m', g))
           \<and> layers m' = layers m \<and> lr m' = lr m \<and> klw m' = klw m
           \<and> norm_mode m' = norm_mode m \<and> norm_bounds m' = norm_bounds m
           \<and> model m' = model m
           \<and> soft_0 m' = default_soft_0 \<and> sigma_alea m' = default_sigma_alea
           \<and> adv_eps m' = None"
  using assms by (simp add: load_from_def save_to_def BayesianNeuralNetwork_init_def)

theorem save_then_load_witness:
  "\<exists>log m'.
     load_from ''model.h5'' ''params.pkl''
       (save_to \<lparr>layers = [1, 1], lr = 1 / 100, klw = 1, norm_bounds = Some ([Fin 1], [Fin 3]),
                 logger = None, batch_size = 0, norm_mode = NORM_CENTER, adv_eps = None,
                 soft_0 = 1 / 100, sigma_alea = 1 / 2, model = []\<rparr>
          ''model.h5'' ''params.pkl'' Map.empty)
       \<lparr>draws = (\<lambda>n. 0), pos = 0\<rparr>
       = (log, Inr (m', \<lparr>draws = (\<lambda>n. 0), pos = 0\<rparr>))
     \<and> layers m' = [1, 1] \<and> lr m' = 1 / 100 \<and> klw m' = 1
     \<and> norm_mode m' = NORM_CENTER \<and> norm_bounds m' = Some ([Fin 1], [Fin 3])
     \<and> sigma_alea m' = 1 / 100"
proof -
  let ?m = "\<lparr>layers = [1, 1], lr = 1 / 100, klw = 1, norm_bounds = Some ([Fin 1], [Fin 3]),
                 logger = None, batch_size = 0, norm_mode = NORM_CENTER, adv_eps = None,
                 soft_0 = 1 / 100, sigma_alea = 1 / 2, model = []\<rparr>"
  let ?g = "\<lparr>draws = (\<lambda>n. 0), pos = 0\<rparr>"
  have h: "''model.h5'' \<noteq> ''params.pkl''" by simp
  from save_then_load[OF h, of ?m Map.empty ?g]
  obtain log m' where
    "load_from ''model.h5'' ''params.pkl'' (save_to ?m ''model.h5'' ''params.pkl'' Map.empty) ?g
       = (log, Inr (m', ?g))"
    "layers m' = layers ?m" "lr m' = lr ?m" "klw m' = klw ?m" "norm_mode m' = norm_mode ?m"
    "norm_bounds m' = norm_bounds ?m" "sigma_alea m' = default_sigma_alea"
    by blast
  then show ?thesis
    by (intro exI[of _ log] exI[of _ m']) (simp add: default_sigma_alea_def)
qed

text \<open>
  Claim C3 as stated fails: an instance built with \<open>sigma_alea = 0.5\<close> comes back with
  \<open>sigma_alea = 0.01\<close>.
\<close>

theorem save_then_load_resets_sigma_alea:
  "snd (load_from ''model.h5'' ''params.pkl''
       (save_to \<lparr>layers = [1, 1], lr = 1 / 100, klw = 1, norm_bounds = None,
                 logger = None, batch_size = 0, norm_mode = NORM_NONE, adv_eps = None,
                 soft_0 = 1 / 100, sigma_alea = 1 / 2, model = []\<rparr>
          ''model.h5'' ''params.pkl'' Map.empty)
       \<lparr>draws = (\<lambda>n. 0), pos = 0\<rparr>)
   = Inr (\<lparr>layers = [1, 1], lr = 1 / 100, klw = 1, norm_bounds = None,
           logger = None, batch_size = 0, norm_mode = NORM_NONE, adv_eps = None,
           soft_0 = 1 / 100, sigma_alea = 1 / 100, model = []\<rparr>,
          \<lparr>draws = (\<lambda>n. 0), pos = 0\<rparr>)
   \<and> sigma_alea \<lparr>layers = [1, 1], lr = 1 / 100, klw = 1, norm_bounds = None,
           logger = None, batch_size = 0, norm_mode = NORM_NONE, adv_eps = None,
           soft_0 = 1 / 100, sigma_alea = 1 / 100, model = []\<rparr>
     \<noteq> sigma_alea \<lparr>layers = [1, 1], lr = 1 / 100, klw = 1, norm_bounds = None,
                 logger = None, batch_size = 0, norm_mode = NORM_NONE, adv_eps = None,
                 soft_0 = 1 / 100, sigma_alea = 1 / 2, model = []\<rparr>"
  by (simp add: load_from_def save_to_def BayesianNeuralNetwork_init_def default_soft_0_def
      default_sigma_alea_def)

section \<open>Properties of the variational layer\<close>

subsection \<open>The Normal distribution\<close>

lemma gauss_pdf_pos: "0 < s \<Longrightarrow> 0 < gauss_pdf m s x"
  by (simp add: gauss_pdf_def)

lemma Normal_log_prob_is_log_density:
  assumes "0 < s"
  shows "Normal_log_prob m s x = ln (gauss_pdf m s x)"
proof -
  have sq: "(x / s - m / s)\<^sup>2 = (x - m)\<^sup>2 / s\<^sup>2"
    by (simp add: power_divide diff_divide_distrib[symmetric])
  have pos: "0 < s * sqrt (2 * pi)" using assms by simp
  have "ln (gauss_pdf m s x) = - (x - m)\<^sup>2 / (2 * s\<^sup>2) - ln (s * sqrt (2 * pi))"
    unfolding gauss_pdf_def using pos by (subst ln_divide_pos) simp_all
  also have "ln (s * sqrt (2 * pi)) = ln s + ln (2 * pi) / 2"
    using assms by (subst ln_mult_pos) (simp_all add: ln_sqrt)
  finally show ?thesis
    by (simp add: Normal_log_prob_def sq)
qed

lemma Normal_prob_is_density:
  assumes "0 < s"
  shows "Normal_prob m s x = gauss_pdf m s x"
  using gauss_pdf_pos[OF assms, of m x]
  by (simp add: Normal_prob_def Normal_log_prob_is_log_density[OF assms])

lemma expm1_one_gt_one: "1 < exp (1::real) - 1"
proof -
  have "1 + (1::real) + 1\<^sup>2 / 2 \<le> exp 1"
    by (rule exp_lower_Taylor_quadratic) simp
  then show ?thesis by simp
qed

lemma c_pos: "0 < ln (exp (1::real) - 1)"
  using expm1_one_gt_one by simp

subsection \<open>The loss a layer adds\<close>

lemma log_prior_prob_mixture:
  assumes "0 < prior_sigma_1 L" and "0 < prior_sigma_2 L"
  shows "log_prior_prob L w = ln (ln (exp 1 - 1) + mixture_density L w)"
  using assms
  by (simp add: log_prior_prob_def mixture_density_def prior_pi_1_def prior_pi_2_def
      Normal_prob_is_density Let_def add.assoc)





subsection \<open>The weights a forward pass samples\<close>


lemma sample_kernel_rng:
  "snd (sample_kernel L g) = g\<lparr>pos := pos g + length (kernel_mu L) * units L\<rparr>"
  by (simp add: sample_kernel_def random_normal_mat_def)

lemma sample_bias_rng:
  "snd (sample_bias L g) = g\<lparr>pos := pos g + length (bias_mu L)\<rparr>"
  by (simp add: sample_bias_def random_normal_vec_def)



lemma call_returns:
  assumes "tcols inputs = length (kernel_mu L)"
  shows "\<exists>out added. call L inputs g = Returns (out, added,
           g\<lparr>pos := pos g + length (kernel_mu L) * units L + length (bias_mu L)\<rparr>)
         \<and> tcols out = units L \<and> length (trows out) = length (trows inputs)
         \<and> list_all (\<lambda>r. length r = units L) (trows out)
         \<and> trows out = map (\<lambda>r. map (activate (activation L))
              (dot_row r (fst (sample_kernel L g))
                 (fst (sample_bias L (snd (sample_kernel L g)))) (units L))) (trows inputs)"
  using assms
  by (simp add: call_def Let_def split_beta sample_kernel_rng sample_bias_rng dot_row_def
      list_all_iff)








section \<open>Properties of training\<close>

lemma ln_two_ge_half: "1 / 2 \<le> ln (2::real)"
proof -
  have "ln (1 / 2 :: real) \<le> 1 / 2 - 1"
    by (rule ln_le_minus_one) simp
  moreover have "ln (1 / 2 :: real) = - ln 2"
    by (simp add: ln_div)
  ultimately show ?thesis by simp
qed

lemma gauss_pdf_at_mean: "0 < s \<Longrightarrow> gauss_pdf m s m = 1 / (s * sqrt (2 * pi))"
  by (simp add: gauss_pdf_def)

text \<open>The term of one weight that sits at its mean \<open>0\<close> with \<open>rho = 0\<close>, under the default
  prior: its density under the posterior is below the narrow component's share.\<close>

lemma kl_term_at_zero_negative:
  assumes p: "prior_sigma_1 L = 3 / 2" "prior_sigma_2 L = 1 / 10" "prior_pi L = 1 / 2"
    and kw: "0 < kl_weight L"
  shows "kl_loss L [0] [0] [1 / 1000 + softplus 0] < 0"
proof -
  let ?s = "1 / 1000 + softplus 0 :: real"
  let ?c = "ln (exp 1 - 1 :: real)"
  let ?r = "sqrt (2 * pi)"
  have r: "0 < ?r" by simp
  have s: "1 / 2 < ?s" using ln_two_ge_half by (simp add: softplus_def)
  then have s0: "0 < ?s" by simp
  have q: "gauss_pdf 0 ?s 0 < 2 / ?r"
  proof -
    have eq: "gauss_pdf 0 ?s 0 = (1 / ?s) / ?r"
      using gauss_pdf_at_mean[OF s0, of 0] by simp
    have "1 / ?s < 2" using s s0 by (simp add: field_simps)
    then have "(1 / ?s) / ?r < 2 / ?r"
      using r by (rule divide_strict_right_mono)
    then show ?thesis unfolding eq .
  qed
  have M: "mixture_density L 0 = (1 / 3) / ?r + 5 / ?r"
    by (simp add: mixture_density_def p gauss_pdf_def)
  have "2 / ?r < 5 / ?r" using r by (simp add: divide_strict_right_mono)
  moreover have "0 < (1 / 3) / ?r" using r by simp
  ultimately have "2 / ?r < ?c + mixture_density L 0"
    using c_pos unfolding M by linarith
  with q have lt: "gauss_pdf 0 ?s 0 < ?c + mixture_density L 0" by linarith
  have "0 < gauss_pdf 0 ?s 0" by (rule gauss_pdf_pos[OF s0])
  then have "ln (gauss_pdf 0 ?s 0) < ln (?c + mixture_density L 0)"
    using lt ln_less_cancel_iff[of "gauss_pdf 0 ?s 0" "?c + mixture_density L 0"] by linarith
  moreover have "kl_loss L [0] [0] [?s]
      = kl_weight L * (ln (gauss_pdf 0 ?s 0) - ln (?c + mixture_density L 0))"
    using s0 by (simp add: kl_loss_def Normal_log_prob_is_log_density log_prior_prob_mixture p)
  ultimately show ?thesis
    using kw by (simp add: mult_pos_neg)
qed

text \<open>For every step: the loss value \<open>grad\<close> returns, and hands to the optimizer as the
  function to differentiate, is \<open>loss\<close> of the targets and the prediction. The model's
  \<open>losses\<close> of the pass are not part of it.\<close>

lemma grad_loss_value_is_likelihood_loss:
  assumes "grad self X v g = Returns (loss_value, grads, losses, g')"
  shows "\<exists>y_pred. Sequential_call (model self) X g = Returns (y_pred, losses, g')
           \<and> loss self v y_pred = Returns loss_value
           \<and> grads = tape_loss self X v g"
  using assms
  by (auto simp add: grad_def forward_loss_def split: outcome.splits prod.splits)

text \<open>One epoch of \<open>fit\<close>: what \<open>apply_gradients\<close> is given is the gradient of that
  loss value, and the variables it returns are assigned.\<close>

lemma epochs_loop_step:
  assumes "to_tensor X = Returns Xt" and "to_tensor v = Returns vt"
    and "grad self Xt vt g = Returns (loss_value, grads, losses, g')"
  shows "grads = tape_loss self Xt vt g
         \<and> epochs_loop apply_gradients X v (Suc n) e self opt g
           = epochs_loop apply_gradients X v n (Suc e)
               (tell (log_train_epoch e loss_value)
                  (assign_variables
                     (snd (apply_gradients opt grads (wrap_training_variables self))) self))
               (fst (apply_gradients opt grads (wrap_training_variables self))) g'"
  using assms grad_loss_value_is_likelihood_loss[OF assms(3)]
  by (auto simp add: split_beta)

text \<open>
  Claim C1 fails on the code. Every \<open>DenseVariational.call\<close> hands its KL term to
  \<open>add_loss\<close>, and the model collects the terms in \<open>losses\<close>; but \<open>grad\<close> differentiates
  \<open>self.loss(v, self.model(X))\<close> alone and never reads \<open>self.model.losses\<close>. For the
  network of layers \<open>[1, 1]\<close> with \<open>klw = 1\<close>, \<open>sigma_alea = 1\<close>, all means and
  \<open>rho\<close>s zero, the input \<open>[[0]]\<close>, the target \<open>[[0]]\<close> and draws that are zero: the
  loss value, and the function whose gradient is applied, is the negative
  log-likelihood; the KL terms of the pass add up to a negative number, so the loss
  value is not the negative log-likelihood plus their sum.
\<close>

theorem grad_loss_omits_kl_terms:
  "\<exists>grads losses g'.
     grad \<lparr>layers = [1, 1], lr = 1 / 100, klw = 1, norm_bounds = None, logger = None,
           batch_size = 0, norm_mode = NORM_NONE, adv_eps = None, soft_0 = 1 / 100,
           sigma_alea = 1,
           model = [\<lparr>units = 1, kl_weight = 1, activation = linear,
                     prior_sigma_1 = 3 / 2, prior_sigma_2 = 1 / 10, prior_pi = 1 / 2,
                     kernel_mu = [[0]], bias_mu = [0], kernel_rho = [[0]], bias_rho = [0]\<rparr>]\<rparr>
          \<lparr>tcols = 1, trows = [[0]]\<rparr> \<lparr>tcols = 1, trows = [[0]]\<rparr>
          \<lparr>draws = (\<lambda>n. 0), pos = 0\<rparr>
       = Returns (- Normal_log_prob 0 1 0, grads, losses, g')
     \<and> grads [([[0]], [0], [[0]], [0])] = Returns (- Normal_log_prob 0 1 0)
     \<and> sum_list losses < 0
     \<and> - Normal_log_prob 0 1 0 \<noteq> - Normal_log_prob 0 1 0 + sum_list losses"
proof -
  let ?L = "\<lparr>units = 1, kl_weight = 1, activation = linear,
                     prior_sigma_1 = 3 / 2, prior_sigma_2 = 1 / 10, prior_pi = 1 / 2,
                     kernel_mu = [[0]], bias_mu = [0], kernel_rho = [[0]], bias_rho = [0]\<rparr>"
  let ?B = "\<lparr>layers = [1, 1], lr = 1 / 100, klw = 1, norm_bounds = None, logger = None,
           batch_size = 0, norm_mode = NORM_NONE, adv_eps = None, soft_0 = 1 / 100,
           sigma_alea = 1, model = [?L]\<rparr>"
  let ?X = "\<lparr>tcols = 1, trows = [[0]]\<rparr>"
  let ?g = "\<lparr>draws = (\<lambda>n. 0), pos = 0\<rparr>"
  let ?kl = "kl_loss ?L [0] [0] [1 / 1000 + softplus 0]"
  have call: "call ?L ?X ?g = Returns (?X, ?kl + ?kl, \<lparr>draws = (\<lambda>n. 0), pos = 2\<rparr>)"
    by (simp add: call_def sample_kernel_def sample_bias_def random_normal_mat_def
        random_normal_vec_def kernel_sigma_def bias_sigma_def dot_row_def)
  have loss: "loss ?B ?X ?X = Returns (- Normal_log_prob 0 1 0)"
    by (simp add: loss_def broadcast2_def bcompat_def bdim_def bpick_def K_sum_def)
  have fwd: "forward_loss ?B ?X ?X ?g
             = Returns (- Normal_log_prob 0 1 0, [?kl + ?kl], \<lparr>draws = (\<lambda>n. 0), pos = 2\<rparr>)"
    unfolding forward_loss_def using call loss by simp
  have asg: "assign_variables [([[0]], [0], [[0]], [0])] ?B = ?B"
    by (simp add: assign_variables_def assign_layer_def)
  have tape: "tape_loss ?B ?X ?X ?g [([[0]], [0], [[0]], [0])] = Returns (- Normal_log_prob 0 1 0)"
    unfolding tape_loss_def asg fwd by simp
  have neg: "?kl < 0"
    by (rule kl_term_at_zero_negative) simp_all
  have "grad ?B ?X ?X ?g
        = Returns (- Normal_log_prob 0 1 0, tape_loss ?B ?X ?X ?g, [?kl + ?kl],
                   \<lparr>draws = (\<lambda>n. 0), pos = 2\<rparr>)"
    unfolding grad_def fwd by simp
  then show ?thesis
    using tape neg by (intro exI[of _ "tape_loss ?B ?X ?X ?g"] exI[of _ "[?kl + ?kl]"]
        exI[of _ "\<lparr>draws = (\<lambda>n. 0), pos = 2\<rparr>"]) simp
qed

section \<open>Properties of prediction\<close>

text \<open>A pass of a network built in a chain returns, keeps the row count, and leaves the
  generator \<open>draws_per_pass\<close> draws further.\<close>

lemma Sequential_call_built:
  assumes "network_built k m" and "tcols X = k" and "m \<noteq> []"
  shows "\<exists>y losses. Sequential_call m X g
            = Returns (y, losses, g\<lparr>pos := pos g + draws_per_pass m\<rparr>)
         \<and> tcols y = units (last m) \<and> length (trows y) = length (trows X)
         \<and> list_all (\<lambda>r. length r = units (last m)) (trows y)"
  using assms
proof (induction m arbitrary: k X g)
  case Nil
  then show ?case by simp
next
  case (Cons L Ls)
  have b: "built k L" and rest: "network_built (units L) Ls"
    using Cons.prems(1) by simp_all
  have w: "tcols X = length (kernel_mu L)"
    using b Cons.prems(2) by (simp add: built_def)
  let ?g1 = "g\<lparr>pos := pos g + length (kernel_mu L) * units L + length (bias_mu L)\<rparr>"
  from call_returns[OF w, of g]
  obtain out added where c: "call L X g = Returns (out, added, ?g1)"
    and sh: "tcols out = units L" "length (trows out) = length (trows X)"
      "list_all (\<lambda>r. length r = units L) (trows out)"
    by blast
  show ?case
  proof (cases "Ls = []")
    case True
    then show ?thesis using c sh by simp
  next
    case False
    from Cons.IH[OF rest sh(1) False, of ?g1]
    obtain y losses where s: "Sequential_call Ls out ?g1
            = Returns (y, losses, ?g1\<lparr>pos := pos ?g1 + draws_per_pass Ls\<rparr>)"
      and shy: "tcols y = units (last Ls)" "length (trows y) = length (trows out)"
        "list_all (\<lambda>r. length r = units (last Ls)) (trows y)"
      by blast
    have "Sequential_call (L # Ls) X g
            = Returns (y, added # losses, g\<lparr>pos := pos g + draws_per_pass (L # Ls)\<rparr>)"
      using c s by (simp add: add.assoc)
    then show ?thesis using shy sh False by simp
  qed
qed

lemma forward_passes_built:
  assumes "network_built k m" and "tcols X = k" and "m \<noteq> []"
  shows "\<exists>ys. forward_passes m X n g = Returns (ys, g\<lparr>pos := pos g + n * draws_per_pass m\<rparr>)
         \<and> length ys = n
         \<and> (\<forall>i<n. \<exists>losses.
               Sequential_call m X (g\<lparr>pos := pos g + i * draws_per_pass m\<rparr>)
               = Returns (ys ! i, losses, g\<lparr>pos := pos g + Suc i * draws_per_pass m\<rparr>))
         \<and> list_all (\<lambda>y. tcols y = units (last m) \<and> length (trows y) = length (trows X)
                          \<and> list_all (\<lambda>r. length r = units (last m)) (trows y)) ys"
proof (induction n arbitrary: g)
  case 0
  then show ?case by simp
next
  case (Suc n)
  let ?d = "draws_per_pass m"
  let ?g1 = "g\<lparr>pos := pos g + ?d\<rparr>"
  from Sequential_call_built[OF assms, of g]
  obtain y losses where s: "Sequential_call m X g = Returns (y, losses, ?g1)"
    and shy: "tcols y = units (last m)" "length (trows y) = length (trows X)"
      "list_all (\<lambda>r. length r = units (last m)) (trows y)"
    by blast
  from Suc.IH[of ?g1]
  obtain ys where f: "forward_passes m X n ?g1
                        = Returns (ys, ?g1\<lparr>pos := pos ?g1 + n * ?d\<rparr>)"
    and len: "length ys = n"
    and each: "\<forall>i<n. \<exists>losses.
               Sequential_call m X (?g1\<lparr>pos := pos ?g1 + i * ?d\<rparr>)
               = Returns (ys ! i, losses, ?g1\<lparr>pos := pos ?g1 + Suc i * ?d\<rparr>)"
    and shs: "list_all (\<lambda>y. tcols y = units (last m) \<and> length (trows y) = length (trows X)
                          \<and> list_all (\<lambda>r. length r = units (last m)) (trows y)) ys"
    by blast
  have ret: "forward_passes m X (Suc n) g
             = Returns (y # ys, g\<lparr>pos := pos g + Suc n * ?d\<rparr>)"
    using s f by (simp add: add.assoc add.commute)
  have each': "\<exists>losses. Sequential_call m X (g\<lparr>pos := pos g + i * ?d\<rparr>)
               = Returns ((y # ys) ! i, losses, g\<lparr>pos := pos g + Suc i * ?d\<rparr>)"
    if i: "i < Suc n" for i
  proof (cases i)
    case 0
    then show ?thesis using s by simp
  next
    case (Suc j)
    then have "j < n" using i by simp
    with each obtain l where "Sequential_call m X (?g1\<lparr>pos := pos ?g1 + j * ?d\<rparr>)
               = Returns (ys ! j, l, ?g1\<lparr>pos := pos ?g1 + Suc j * ?d\<rparr>)"
      by blast
    then show ?thesis using Suc by (simp add: add.assoc)
  qed
  show ?case
    using ret len each' shy shs by auto
qed

text \<open>The loop of \<open>predict\<close> fills the slices \<open>i, i + 1, ...\<close> with the outputs of
  successive forward passes.\<close>

lemma samples_loop_fills:
  assumes tt: "to_tensor X = Returns Xt"
  shows "forward_passes (model self) Xt n g = Returns (ys, g')
         \<Longrightarrow> list_all (\<lambda>y. tcols y = n_L) ys \<Longrightarrow> i + n \<le> length buf
         \<Longrightarrow> samples_loop self X n_L n i buf g
             = Returns (take i buf @ map (\<lambda>y. map (map Fin) (trows y)) ys @ drop (i + n) buf, g')"
proof (induction n arbitrary: i buf g ys)
  case 0
  then show ?case by simp
next
  case (Suc n)
  from Suc.prems(1) obtain y losses g1 ys' where
    s: "Sequential_call (model self) Xt g = Returns (y, losses, g1)"
    and f: "forward_passes (model self) Xt n g1 = Returns (ys', g')"
    and ys: "ys = y # ys'"
    by (auto split: outcome.splits prod.splits)
  have wy: "tcols y = n_L" and wys: "list_all (\<lambda>y. tcols y = n_L) ys'"
    using Suc.prems(2) ys by simp_all
  let ?S = "map (map Fin) (trows y)"
  have sl: "into_slice n_L y = Inr ?S"
    using wy by (simp add: into_slice_def)
  have i: "i < length buf" and le: "Suc i + n \<le> length (buf[i := ?S])"
    using Suc.prems(3) by simp_all
  have "samples_loop self X n_L (Suc n) i buf g
        = samples_loop self X n_L n (Suc i) (buf[i := ?S]) g1"
    using tt s sl by simp
  also have "\<dots> = Returns (take (Suc i) (buf[i := ?S])
                      @ map (\<lambda>y. map (map Fin) (trows y)) ys'
                      @ drop (Suc i + n) (buf[i := ?S]), g')"
    by (rule Suc.IH[OF f wys le])
  also have "take (Suc i) (buf[i := ?S]) = take i buf @ [?S]"
    using i by (simp add: take_Suc_conv_app_nth)
  also have "drop (Suc i + n) (buf[i := ?S]) = drop (i + Suc n) buf"
    by simp
  finally show ?case using ys by simp
qed

lemma slice_entry:
  assumes "r < length (trows y)" and "c < length (trows y ! r)"
  shows "map (map Fin) (trows y) ! r ! c = Fin (trows y ! r ! c)"
  using assms by simp

lemma entries_along_samples:
  assumes sh: "list_all (\<lambda>y. length (trows y) = n \<and> list_all (\<lambda>r. length r = n_L) (trows y)) ys"
    and r: "r < n" and c: "c < n_L"
  shows "map (\<lambda>S. S ! r ! c) (map (\<lambda>y. map (map Fin) (trows y)) ys)
         = map Fin (map (\<lambda>y. trows y ! r ! c) ys)"
proof -
  have "map (map Fin) (trows y) ! r ! c = Fin (trows y ! r ! c)" if y: "y \<in> set ys" for y
  proof (rule slice_entry)
    show "r < length (trows y)" using sh y r by (simp add: list_all_iff)
    then show "c < length (trows y ! r)" using sh y c by (simp add: list_all_iff)
  qed
  then show ?thesis by (simp add: comp_def cong: map_cong)
qed

lemma along_samples_mean:
  assumes sh: "list_all (\<lambda>y. length (trows y) = n \<and> list_all (\<lambda>r. length r = n_L) (trows y)) ys"
    and ne: "ys \<noteq> []"
  shows "along_samples np_mean n n_L (map (\<lambda>y. map (map Fin) (trows y)) ys)
         = \<lparr>dtype = ''float64'', ncols = n_L,
            rows = map (\<lambda>r. map (\<lambda>c. Fin ((\<Sum>y\<leftarrow>ys. trows y ! r ! c) / real (length ys)))
                               [0..<n_L]) [0..<n]\<rparr>"
proof -
  have "np_mean (map (\<lambda>S. S ! r ! c) (map (\<lambda>y. map (map Fin) (trows y)) ys))
        = Fin ((\<Sum>y\<leftarrow>ys. trows y ! r ! c) / real (length ys))"
    if "r < n" and "c < n_L" for r c
    unfolding entries_along_samples[OF sh that]
    using ne by (subst np_mean_Fin) simp_all
  then show ?thesis
    unfolding along_samples_def by (simp cong: map_cong)
qed

lemma along_samples_var:
  assumes sh: "list_all (\<lambda>y. length (trows y) = n \<and> list_all (\<lambda>r. length r = n_L) (trows y)) ys"
    and ne: "ys \<noteq> []"
  shows "along_samples np_var n n_L (map (\<lambda>y. map (map Fin) (trows y)) ys)
         = \<lparr>dtype = ''float64'', ncols = n_L,
            rows = map (\<lambda>r. map (\<lambda>c.
                     Fin ((\<Sum>y\<leftarrow>ys. (trows y ! r ! c
                            - (\<Sum>z\<leftarrow>ys. trows z ! r ! c) / real (length ys))\<^sup>2)
                          / real (length ys)))
                               [0..<n_L]) [0..<n]\<rparr>"
proof -
  have "np_var (map (\<lambda>S. S ! r ! c) (map (\<lambda>y. map (map Fin) (trows y)) ys))
        = Fin ((\<Sum>y\<leftarrow>ys. (trows y ! r ! c
                            - (\<Sum>z\<leftarrow>ys. trows z ! r ! c) / real (length ys))\<^sup>2)
                          / real (length ys))"
    if "r < n" and "c < n_L" for r c
    unfolding entries_along_samples[OF sh that]
    using ne by (subst np_var_Fin) (simp_all add: comp_def)
  then show ?thesis
    unfolding along_samples_def by (simp cong: map_cong)
qed

text \<open>The model the constructor builds is built in a chain from the first width, and its
  last layer has the last width.\<close>

lemma build_built: "built k (fst (build k L g)) \<and> units (fst (build k L g)) = units L"
  by (simp add: build_def random_normal_mat_def random_normal_vec_def built_def split_beta
      list_all_iff)

lemma build_all_built:
  "network_built k (fst (build_all k Ls g))
   \<and> map units (fst (build_all k Ls g)) = map units Ls"
proof (induction Ls arbitrary: k g)
  case Nil
  then show ?case by simp
next
  case (Cons L Ls)
  show ?case
    using build_built[of k L g] Cons.IH[of "units L" "snd (build k L g)"]
    by (simp add: split_beta)
qed

lemma build_model_built:
  assumes "build_model ls kw g = Inr (m, g')"
  shows "network_built (hd ls) m \<and> m \<noteq> [] \<and> units (last m) = last ls"
proof -
  let ?cfg = "map (\<lambda>width. DenseVariational_init width kw relu) (butlast (tl ls))
              @ [DenseVariational_init (last ls) kw linear]"
  have ne: "ls \<noteq> []" and m: "m = fst (build_all (hd ls) ?cfg g)"
    using assms by (auto simp add: build_model_def Let_def split: if_splits)
  have nb: "network_built (hd ls) m" and u: "map units m = map units ?cfg"
    using build_all_built[of "hd ls" ?cfg g] m by simp_all
  have mne: "m \<noteq> []" using u by auto
  have "units (last m) = last (map units m)" using mne by (simp add: last_map)
  also have "\<dots> = last ls" unfolding u by (simp add: DenseVariational_init_def)
  finally show ?thesis using nb mne by simp
qed

text \<open>
  Claim C7. Let \<open>normalize(X)\<close> return an array of finite values whose width is the
  input width of a model built in a chain, with output width \<open>layers[-1]\<close> (as
  \<open>build_model\<close> makes it), and let \<open>N\<close> be positive. Then \<open>predict(X, samples=N)\<close>
  returns. It runs \<open>N\<close> forward passes of the model on the normalised input, pass \<open>i\<close>
  starting where pass \<open>i - 1\<close> left the generator, so that the passes take disjoint
  runs of draws. For every row \<open>r\<close> and output coordinate \<open>c\<close> it returns the mean of
  the \<open>N\<close> outputs at \<open>(r, c)\<close> and their variance, the mean of the squared deviations
  from that mean (\<open>var\<close> with the default \<open>ddof=0\<close>, division by \<open>N\<close>). The default of
  \<open>samples\<close> is \<open>200\<close>.
\<close>

theorem predict_monte_carlo:
  assumes nz: "normalize_input self X = Inr Xn"
    and fin: "all_finite Xn"
    and net: "network_built (ncols Xn) (model self)" and ne: "model self \<noteq> []"
    and out: "units (last (model self)) = last (layers self)" and ly: "layers self \<noteq> []"
    and N: "0 < N"
  shows "\<exists>Xt ys g'.
           to_tensor Xn = Returns Xt
         \<and> forward_passes (model self) Xt N g = Returns (ys, g')
         \<and> length ys = N
         \<and> pos g' = pos g + N * draws_per_pass (model self)
         \<and> (\<forall>i<N. \<exists>losses.
               Sequential_call (model self) Xt (g\<lparr>pos := pos g + i * draws_per_pass (model self)\<rparr>)
               = Returns (ys ! i, losses, g\<lparr>pos := pos g + Suc i * draws_per_pass (model self)\<rparr>))
         \<and> predict self X (int N) g
             = Returns ((\<lparr>dtype = ''float64'', ncols = last (layers self),
                          rows = map (\<lambda>r. map (\<lambda>c.
                                   Fin ((\<Sum>y\<leftarrow>ys. trows y ! r ! c) / real N))
                                 [0..<last (layers self)]) [0..<length (rows Xn)]\<rparr>,
                         \<lparr>dtype = ''float64'', ncols = last (layers self),
                          rows = map (\<lambda>r. map (\<lambda>c.
                                   Fin ((\<Sum>y\<leftarrow>ys. (trows y ! r ! c
                                          - (\<Sum>z\<leftarrow>ys. trows z ! r ! c) / real N)\<^sup>2) / real N))
                                 [0..<last (layers self)]) [0..<length (rows Xn)]\<rparr>), g')
         \<and> predict self X default_samples g = predict self X 200 g"
proof -
  let ?m = "model self"
  let ?d = "draws_per_pass ?m"
  let ?n = "length (rows Xn)"
  let ?nL = "last (layers self)"
  let ?Xt = "\<lparr>tcols = ncols Xn, trows = map (map the_fin) (rows Xn)\<rparr>"
  let ?g' = "g\<lparr>pos := pos g + N * ?d\<rparr>"
  let ?zeros = "replicate N (replicate ?n (replicate ?nL (Fin 0)))"
  have tt: "to_tensor Xn = Returns ?Xt"
    using fin by (simp add: to_tensor_def)
  have w: "tcols ?Xt = ncols Xn" by simp
  from forward_passes_built[OF net w ne, of N g]
  obtain ys where fp: "forward_passes ?m ?Xt N g = Returns (ys, ?g')"
    and len: "length ys = N"
    and each: "\<forall>i<N. \<exists>losses.
               Sequential_call ?m ?Xt (g\<lparr>pos := pos g + i * ?d\<rparr>)
               = Returns (ys ! i, losses, g\<lparr>pos := pos g + Suc i * ?d\<rparr>)"
    and shs: "list_all (\<lambda>y. tcols y = units (last ?m) \<and> length (trows y) = length (trows ?Xt)
                          \<and> list_all (\<lambda>r. length r = units (last ?m)) (trows y)) ys"
    by blast
  have wd: "list_all (\<lambda>y. tcols y = ?nL) ys"
    using shs out by (simp add: list_all_iff)
  have sh: "list_all (\<lambda>y. length (trows y) = ?n \<and> list_all (\<lambda>r. length r = ?nL) (trows y)) ys"
    using shs out by (simp add: list_all_iff)
  have yne: "ys \<noteq> []" using len N by auto
  have "samples_loop self Xn ?nL N 0 ?zeros g
        = Returns (take 0 ?zeros @ map (\<lambda>y. map (map Fin) (trows y)) ys
                   @ drop (0 + N) ?zeros, ?g')"
    by (rule samples_loop_fills[OF tt fp wd]) simp
  then have loop: "samples_loop self Xn ?nL N 0 ?zeros g
        = Returns (map (\<lambda>y. map (map Fin) (trows y)) ys, ?g')"
    by simp
  have pred: "predict self X (int N) g
        = Returns ((along_samples np_mean ?n ?nL (map (\<lambda>y. map (map Fin) (trows y)) ys),
                    along_samples np_var ?n ?nL (map (\<lambda>y. map (map Fin) (trows y)) ys)), ?g')"
    using nz ly loop by (simp add: predict_def Let_def)
  have dflt: "predict self X default_samples g = predict self X 200 g"
    by (simp add: default_samples_def)
  note pred' = pred[unfolded along_samples_mean[OF sh yne] along_samples_var[OF sh yne] len]
  show ?thesis
    using tt fp len each pred' dflt
    by (intro exI[of _ ?Xt] exI[of _ ys] exI[of _ ?g']) simp
qed

theorem predict_monte_carlo_witness:
  "\<exists>g'. predict
       \<lparr>layers = [1, 1], lr = 1 / 100, klw = 1, norm_bounds = None, logger = None,
        batch_size = 0, norm_mode = NORM_NONE, adv_eps = None, soft_0 = 1 / 100,
        sigma_alea = 1 / 100,
        model = [\<lparr>units = 1, kl_weight = 1, activation = linear,
                  prior_sigma_1 = 3 / 2, prior_sigma_2 = 1 / 10, prior_pi = 1 / 2,
                  kernel_mu = [[0]], bias_mu = [0], kernel_rho = [[0]], bias_rho = [0]\<rparr>]\<rparr>
       \<lparr>dtype = ''float64'', ncols = 1, rows = [[Fin 1]]\<rparr> 2
       \<lparr>draws = (\<lambda>n. real n), pos = 0\<rparr>
     = Returns ((\<lparr>dtype = ''float64'', ncols = 1,
                  rows = [[Fin (3 * (1 / 1000 + softplus 0))]]\<rparr>,
                 \<lparr>dtype = ''float64'', ncols = 1,
                  rows = [[Fin (4 * (1 / 1000 + softplus 0)\<^sup>2)]]\<rparr>), g')
     \<and> pos g' = 4"
proof -
  let ?L = "\<lparr>units = 1, kl_weight = 1, activation = linear,
                  prior_sigma_1 = 3 / 2, prior_sigma_2 = 1 / 10, prior_pi = 1 / 2,
                  kernel_mu = [[0]], bias_mu = [0], kernel_rho = [[0]], bias_rho = [0]\<rparr>"
  let ?B = "\<lparr>layers = [1, 1], lr = 1 / 100, klw = 1, norm_bounds = None, logger = None,
        batch_size = 0, norm_mode = NORM_NONE, adv_eps = None, soft_0 = 1 / 100,
        sigma_alea = 1 / 100, model = [?L]\<rparr>"
  let ?X = "\<lparr>dtype = ''float64'', ncols = 1, rows = [[Fin 1]]\<rparr>"
  let ?g = "\<lparr>draws = (\<lambda>n. real n), pos = 0\<rparr>"
  let ?s = "1 / 1000 + softplus 0 :: real"
  have h1: "normalize_input ?B ?X = Inr ?X"
    by (simp add: normalize_input_def tensor_def)
  have h2: "all_finite ?X" by (simp add: all_finite_def)
  have h3: "network_built (ncols ?X) (model ?B)" by (simp add: built_def)
  have h4: "model ?B \<noteq> []" by simp
  have h5: "units (last (model ?B)) = last (layers ?B)" by simp
  have h6: "layers ?B \<noteq> []" by simp
  have h7: "0 < (2::nat)" by simp
  from predict_monte_carlo[OF h1 h2 h3 h4 h5 h6 h7, of ?g]
  obtain Xt ys g' where tt: "to_tensor ?X = Returns Xt"
    and fp: "forward_passes (model ?B) Xt 2 ?g = Returns (ys, g')"
    and ps: "pos g' = pos ?g + 2 * draws_per_pass (model ?B)"
    and pr: "predict ?B ?X (int 2) ?g
             = Returns ((\<lparr>dtype = ''float64'', ncols = last (layers ?B),
                          rows = map (\<lambda>r. map (\<lambda>c.
                                   Fin ((\<Sum>y\<leftarrow>ys. trows y ! r ! c) / real (2::nat)))
                                 [0..<last (layers ?B)]) [0..<length (rows ?X)]\<rparr>,
                         \<lparr>dtype = ''float64'', ncols = last (layers ?B),
                          rows = map (\<lambda>r. map (\<lambda>c.
                                   Fin ((\<Sum>y\<leftarrow>ys. (trows y ! r ! c
                                          - (\<Sum>z\<leftarrow>ys. trows z ! r ! c) / real (2::nat))\<^sup>2)
                                        / real (2::nat)))
                                 [0..<last (layers ?B)]) [0..<length (rows ?X)]\<rparr>), g')"
    by blast
  have Xt: "Xt = \<lparr>tcols = 1, trows = [[1]]\<rparr>"
    using tt by (simp add: to_tensor_def all_finite_def)
  have c1: "call ?L \<lparr>tcols = 1, trows = [[1]]\<rparr> ?g
        = Returns (\<lparr>tcols = 1, trows = [[?s]]\<rparr>,
             kl_loss ?L [0] [0] [?s] + kl_loss ?L [?s] [0] [?s],
             \<lparr>draws = (\<lambda>n. real n), pos = 2\<rparr>)"
    by (simp add: call_def sample_kernel_def sample_bias_def random_normal_mat_def
        random_normal_vec_def kernel_sigma_def bias_sigma_def dot_row_def)
  have c2: "call ?L \<lparr>tcols = 1, trows = [[1]]\<rparr> \<lparr>draws = (\<lambda>n. real n), pos = 2\<rparr>
        = Returns (\<lparr>tcols = 1, trows = [[5 * ?s]]\<rparr>,
             kl_loss ?L [?s * 2] [0] [?s] + kl_loss ?L [?s * 3] [0] [?s],
             \<lparr>draws = (\<lambda>n. real n), pos = 4\<rparr>)"
    by (simp add: call_def sample_kernel_def sample_bias_def random_normal_mat_def
        random_normal_vec_def kernel_sigma_def bias_sigma_def dot_row_def)
  have "forward_passes [?L] \<lparr>tcols = 1, trows = [[1]]\<rparr> (Suc (Suc 0)) ?g
        = Returns ([\<lparr>tcols = 1, trows = [[?s]]\<rparr>, \<lparr>tcols = 1, trows = [[5 * ?s]]\<rparr>],
                   \<lparr>draws = (\<lambda>n. real n), pos = 4\<rparr>)"
    using c1 c2 by simp
  then have ys: "ys = [\<lparr>tcols = 1, trows = [[?s]]\<rparr>, \<lparr>tcols = 1, trows = [[5 * ?s]]\<rparr>]"
    using fp unfolding Xt by (simp add: numeral_2_eq_2)
  have "pos g' = 4" using ps by simp
  moreover have "predict ?B ?X 2 ?g
      = Returns ((\<lparr>dtype = ''float64'', ncols = 1, rows = [[Fin (3 * ?s)]]\<rparr>,
                  \<lparr>dtype = ''float64'', ncols = 1, rows = [[Fin (4 * ?s\<^sup>2)]]\<rparr>), g')"
  proof -
    have m: "(t + 5 * t) / 2 = 3 * t" for t :: real by simp
    have v: "((t - 3 * t)\<^sup>2 + (5 * t - 3 * t)\<^sup>2) / 2 = 4 * t\<^sup>2" for t :: real
      by (simp add: power2_eq_square)
    have "predict ?B ?X 2 ?g
      = Returns ((\<lparr>dtype = ''float64'', ncols = 1, rows = [[Fin ((?s + 5 * ?s) / 2)]]\<rparr>,
                  \<lparr>dtype = ''float64'', ncols = 1,
                   rows = [[Fin (((?s - (?s + 5 * ?s) / 2)\<^sup>2
                                  + (5 * ?s - (?s + 5 * ?s) / 2)\<^sup>2) / 2)]]\<rparr>), g')"
      using pr unfolding ys by simp
    then show ?thesis unfolding m v .
  qed
  ultimately show ?thesis by blast
qed

end
